theory Spec2Isabelle
  imports Main "HOL-Library.Word" "HOL-Library.Char_ord" "HOL-Library.List_Lexorder"
begin

section \<open>Data model of the database module\<close>

text \<open>
  The TypeScript string unions \<open>Week\<close> and \<open>Time\<close> are enumerations; the mapped
  types \<open>ClassOfWeek\<close> and \<open>ClassOfDay\<close> are objects with one field per member of the
  union, so they are records. Branded strings (\<open>UserId\<close>, \<open>AccessToken\<close>, ...) are strings.
  A JavaScript string is modelled as an Isabelle \<open>string\<close>: its code units are taken
  from the range below 256, which contains every character a hexadecimal token has.
\<close>

type_synonym byte = "8 word"
type_synonym UserId = string
type_synonym LineUserId = string
type_synonym FileHash = string
type_synonym AccessToken = string
type_synonym AccessTokenHash = string
type_synonym ClassId = string
type_synonym Timestamp = nat

datatype Week = Monday | Tuesday | Wednesday | Thursday | Friday | Saturday

datatype Time = Class1 | Class2 | Class3 | Class4 | Class5

record ClassOfDay =
  class1 :: "ClassId option"
  class2 :: "ClassId option"
  class3 :: "ClassId option"
  class4 :: "ClassId option"
  class5 :: "ClassId option"

record ClassOfWeek =
  monday :: ClassOfDay
  tuesday :: ClassOfDay
  wednesday :: ClassOfDay
  thursday :: ClassOfDay
  friday :: ClassOfDay
  saturday :: ClassOfDay

record StateData =
  state_createdAt :: Timestamp

record UserData =
  name :: string
  lineUserId :: LineUserId
  imageFileHash :: FileHash
  lastIssuedAccessTokenHash :: AccessTokenHash
  classInTimeTable :: ClassOfWeek
  createdAt :: Timestamp

text \<open>
  \<open>UserOutType\<close> is \<open>Pick<UserData, "classInTimeTable" | "imageFileHash" | "name"> & {id}\<close>.
  Its fields carry the prefix \<open>uo_\<close> because a record field name is global.
\<close>

record UserOutType =
  uo_id :: UserId
  uo_name :: string
  uo_imageFileHash :: FileHash
  uo_classInTimeTable :: ClassOfWeek

text \<open>Reading and writing \<open>obj[week]\<close> and \<open>obj[time]\<close> with a computed key.\<close>

fun getDay :: "ClassOfWeek \<Rightarrow> Week \<Rightarrow> ClassOfDay" where
  "getDay g Monday = monday g"
| "getDay g Tuesday = tuesday g"
| "getDay g Wednesday = wednesday g"
| "getDay g Thursday = thursday g"
| "getDay g Friday = friday g"
| "getDay g Saturday = saturday g"

fun putDay :: "ClassOfWeek \<Rightarrow> Week \<Rightarrow> ClassOfDay \<Rightarrow> ClassOfWeek" where
  "putDay g Monday d = g\<lparr>monday := d\<rparr>"
| "putDay g Tuesday d = g\<lparr>tuesday := d\<rparr>"
| "putDay g Wednesday d = g\<lparr>wednesday := d\<rparr>"
| "putDay g Thursday d = g\<lparr>thursday := d\<rparr>"
| "putDay g Friday d = g\<lparr>friday := d\<rparr>"
| "putDay g Saturday d = g\<lparr>saturday := d\<rparr>"

fun getTime :: "ClassOfDay \<Rightarrow> Time \<Rightarrow> ClassId option" where
  "getTime d Class1 = class1 d"
| "getTime d Class2 = class2 d"
| "getTime d Class3 = class3 d"
| "getTime d Class4 = class4 d"
| "getTime d Class5 = class5 d"

fun putTime :: "ClassOfDay \<Rightarrow> Time \<Rightarrow> ClassId option \<Rightarrow> ClassOfDay" where
  "putTime d Class1 c = d\<lparr>class1 := c\<rparr>"
| "putTime d Class2 c = d\<lparr>class2 := c\<rparr>"
| "putTime d Class3 c = d\<lparr>class3 := c\<rparr>"
| "putTime d Class4 c = d\<lparr>class4 := c\<rparr>"
| "putTime d Class5 c = d\<lparr>class5 := c\<rparr>"

text \<open>The cell of a grid at a (day, period) pair, and the grid with one cell replaced.\<close>

definition cell :: "ClassOfWeek \<Rightarrow> Week \<Rightarrow> Time \<Rightarrow> ClassId option" where
  "cell g w t = getTime (getDay g w) t"

definition putCell :: "ClassOfWeek \<Rightarrow> Week \<Rightarrow> Time \<Rightarrow> ClassId option \<Rightarrow> ClassOfWeek" where
  "putCell g w t c = putDay g w (putTime (getDay g w) t c)"

definition allWeeks :: "Week list" where
  "allWeeks = [Monday, Tuesday, Wednesday, Thursday, Friday, Saturday]"

definition allTimes :: "Time list" where
  "allTimes = [Class1, Class2, Class3, Class4, Class5]"

definition allCells :: "(Week \<times> Time) list" where
  "allCells = List.product allWeeks allTimes"

section \<open>Tokens and digests\<close>

text \<open>
  \<open>Buffer.toString("hex")\<close>: two lower-case hexadecimal digits per byte.
\<close>

definition hexDigit :: "nat \<Rightarrow> char" where
  "hexDigit n = ''0123456789abcdef'' ! (n mod 16)"

definition hexOfByte :: "byte \<Rightarrow> string" where
  "hexOfByte b = [hexDigit (unat b div 16), hexDigit (unat b mod 16)]"

definition toHex :: "byte list \<Rightarrow> string" where
  "toHex bs = concat (map hexOfByte bs)"

text \<open>
  \<open>createRandomId\<close> and \<open>createAccessToken\<close> encode the bytes drawn from
  \<open>crypto.randomBytes(16)\<close> and \<open>crypto.randomBytes(24)\<close>. The drawn bytes are an input of the model.
\<close>

definition createRandomId :: "byte list \<Rightarrow> string" where
  "createRandomId randomBytes16 = toHex randomBytes16"

definition createAccessToken :: "byte list \<Rightarrow> AccessToken" where
  "createAccessToken randomBytes24 = toHex randomBytes24"

text \<open>
  \<open>Number.parseInt(s, 16)\<close> as ECMAScript defines it: leading white space is dropped, then
  an optional sign, then an optional \<open>0x\<close> or \<open>0X\<close>, then the longest run of hexadecimal
  digits; no digit gives \<open>NaN\<close> (\<open>None\<close>). The value is exact for the short slices it is
  applied to here (no rounding to a double occurs below 14 digits).
\<close>

definition isStrWhiteSpaceChar :: "char \<Rightarrow> bool" where
  "isStrWhiteSpaceChar c = (of_char c \<in> {9::nat, 10, 11, 12, 13, 32, 160})"

definition hexDigitValue :: "char \<Rightarrow> nat option" where
  "hexDigitValue c =
     (let n = (of_char c :: nat) in
      if 48 \<le> n \<and> n \<le> 57 then Some (n - 48)
      else if 97 \<le> n \<and> n \<le> 102 then Some (n - 87)
      else if 65 \<le> n \<and> n \<le> 70 then Some (n - 55)
      else None)"

definition isHexDigit :: "char \<Rightarrow> bool" where
  "isHexDigit c = (hexDigitValue c \<noteq> None)"

definition hexValue :: "string \<Rightarrow> nat" where
  "hexValue z = foldl (\<lambda>acc c. 16 * acc + the (hexDigitValue c)) 0 z"

definition parseInt16 :: "string \<Rightarrow> int option" where
  "parseInt16 inputString =
     (let s1 = dropWhile isStrWhiteSpaceChar inputString;
          negative = (s1 \<noteq> [] \<and> hd s1 = CHR ''-'');
          s2 = (if s1 \<noteq> [] \<and> (hd s1 = CHR ''+'' \<or> hd s1 = CHR ''-'') then tl s1 else s1);
          s3 = (if take 2 s2 = ''0x'' \<or> take 2 s2 = ''0X'' then drop 2 s2 else s2);
          z = takeWhile isHexDigit s3
      in if z = [] then None
         else Some (if negative then - int (hexValue z) else int (hexValue z)))"

text \<open>
  Storing a number into a \<open>Uint8Array\<close> element applies \<open>ToUint8\<close>: \<open>NaN\<close> becomes 0 and
  an integer is reduced modulo 256.
\<close>

definition toUint8 :: "int option \<Rightarrow> byte" where
  "toUint8 v = (case v of None \<Rightarrow> 0 | Some n \<Rightarrow> word_of_int n)"

text \<open>\<open>String.prototype.slice(i, j)\<close> for \<open>0 \<le> i \<le> j\<close>: both ends are clamped to the length.\<close>

definition slice :: "string \<Rightarrow> nat \<Rightarrow> nat \<Rightarrow> string" where
  "slice s i j = take (j - i) (drop i s)"

text \<open>
  The loop of \<open>accessTokenToTypedArray\<close>:
  \<^verbatim>\<open>for (let i = 0; i < 24; i++) { binary[i] = Number.parseInt(accessToken.slice(i, i + 2), 16); }\<close>
  over \<open>new Uint8Array(24)\<close>, which starts as 24 zero bytes.
\<close>

function accessTokenToTypedArray_loop :: "AccessToken \<Rightarrow> nat \<Rightarrow> byte list \<Rightarrow> byte list" where
  "accessTokenToTypedArray_loop accessToken i binary =
     (if i < 24
      then accessTokenToTypedArray_loop accessToken (i + 1)
             (binary[i := toUint8 (parseInt16 (slice accessToken i (i + 2)))])
      else binary)"
  by pat_completeness auto
termination
  by (relation "measure (\<lambda>(accessToken, i, binary). 24 - i)") auto

definition accessTokenToTypedArray :: "AccessToken \<Rightarrow> byte list" where
  "accessTokenToTypedArray accessToken =
     accessTokenToTypedArray_loop accessToken 0 (replicate 24 0)"

text \<open>
  \<open>hashAccessToken\<close> feeds the byte array to SHA-256 and takes the hexadecimal digest.
  SHA-256 belongs to the platform's \<open>crypto\<close> module; it is the parameter \<open>sha256\<close>.
\<close>

definition hashAccessToken :: "(byte list \<Rightarrow> string) \<Rightarrow> AccessToken \<Rightarrow> AccessTokenHash" where
  "hashAccessToken sha256 accessToken = sha256 (accessTokenToTypedArray accessToken)"

section \<open>The document store\<close>

text \<open>
  The store is Cloud Firestore, reached through \<open>typed-admin-firestore\<close>. A collection is
  a list of (document id, data) pairs in the order in which a query without \<open>orderBy\<close>
  returns them, which is the order of the document ids; a new document takes its place
  in that order.
  \<^item> \<open>doc(k).get()\<close> then \<open>.data()\<close> is the data, or \<open>undefined\<close> (\<open>None\<close>) for a missing document;
  \<^item> \<open>doc(k).create(v)\<close> fails when the document exists;
  \<^item> \<open>doc(k).update(fields)\<close> fails when the document is missing and otherwise replaces
    the given fields only;
  \<^item> \<open>doc(k).set(fields, {merge: true})\<close> replaces the given leaf fields only;
  \<^item> \<open>doc(k).delete()\<close> succeeds whether or not the document exists;
  \<^item> \<open>where(field, "==", x).get()\<close> then \<open>.docs\<close> is the list of documents whose field equals \<open>x\<close>.
  Every function runs its awaited store calls one after the other; a function that writes
  returns the store it leaves behind, also when it throws.
  In the functions of the section on users the key \<open>k\<close> is an id that the program drew or
  that a query returned, and \<open>doc(k)\<close> is the document of that id. The login-state functions
  hand \<open>doc\<close> a string of the request; how \<open>doc\<close> reads such a string is modelled below.
\<close>

datatype error =
  AlreadyExists
| NotFound
| InvalidAccessToken
| UserNotExists
| MergeTargetMissing
| RequestFailed
| MissingContentType
| TokenInvalid
| TokenDataInvalid
| InvalidURL
| InvalidResourcePath
| NotADocumentPath
| StoreRejected

text \<open>
  \<open>writes\<close> is a ghost field: the persisted writes issued so far, each with its collection
  and document id. The program never reads it.
\<close>

datatype Write =
  Create string string
| Update string string
| SetMerge string string
| Delete string string
| FileSave string

record Database =
  lineLoginState :: "(string \<times> StateData) list"
  user :: "(UserId \<times> UserData) list"
  bucket :: "(FileHash \<times> byte list \<times> string) list"
  writes :: "Write list"

definition docData :: "('k \<times> 'v) list \<Rightarrow> 'k \<Rightarrow> 'v option" where
  "docData c k = map_of c k"

fun insertDoc :: "('k::linorder) \<times> 'v \<Rightarrow> ('k \<times> 'v) list \<Rightarrow> ('k \<times> 'v) list" where
  "insertDoc p [] = [p]"
| "insertDoc p (q # c) = (if fst p < fst q then p # q # c else q # insertDoc p c)"

definition docCreate :: "(('k::linorder) \<times> 'v) list \<Rightarrow> 'k \<Rightarrow> 'v \<Rightarrow> ('k \<times> 'v) list option" where
  "docCreate c k v = (case map_of c k of Some _ \<Rightarrow> None | None \<Rightarrow> Some (insertDoc (k, v) c))"

definition docModify :: "('k \<times> 'v) list \<Rightarrow> 'k \<Rightarrow> ('v \<Rightarrow> 'v) \<Rightarrow> ('k \<times> 'v) list" where
  "docModify c k f = map (\<lambda>(k', v). if k' = k then (k', f v) else (k', v)) c"

definition docDelete :: "('k \<times> 'v) list \<Rightarrow> 'k \<Rightarrow> ('k \<times> 'v) list" where
  "docDelete c k = filter (\<lambda>(k', v). k' \<noteq> k) c"

definition whereEq :: "('v \<Rightarrow> 'a) \<Rightarrow> 'a \<Rightarrow> ('k \<times> 'v) list \<Rightarrow> ('k \<times> 'v) list" where
  "whereEq field x c = filter (\<lambda>(k, v). field v = x) c"

text \<open>\<open>Array.prototype.join\<close> and \<open>String.prototype.split("/")\<close>.\<close>

fun joinWith :: "string \<Rightarrow> string list \<Rightarrow> string" where
  "joinWith sep [] = []"
| "joinWith sep [x] = x"
| "joinWith sep (x # y # ys) = x @ sep @ joinWith sep (y # ys)"

fun splitSlash :: "string \<Rightarrow> string list" where
  "splitSlash [] = [[]]"
| "splitSlash (c # cs) =
     (if c = CHR ''/'' then [] # splitSlash cs
      else (case splitSlash cs of [] \<Rightarrow> [[c]] | seg # segs \<Rightarrow> (c # seg) # segs))"

fun hasDoubleSlash :: "string \<Rightarrow> bool" where
  "hasDoubleSlash (a # b # cs) = ((a = CHR ''/'' \<and> b = CHR ''/'') \<or> hasDoubleSlash (b # cs))"
| "hasDoubleSlash cs = False"

text \<open>
  \<open>collection.doc(documentPath)\<close> of the Firestore client: \<open>validateResourcePath\<close> throws on the
  empty string and on a string that contains \<open>//\<close>; the path is split at \<open>/\<close> and its empty
  segments (a leading or a trailing slash) are dropped; the segments are appended to the
  collection's path, and the client throws unless the result points to a document, which
  is when the number of appended segments is odd. One segment is a document of the
  collection; three or more are a document of a collection nested below it.
\<close>

definition docSegments :: "string \<Rightarrow> error + string list" where
  "docSegments documentPath =
     (if documentPath = [] \<or> hasDoubleSlash documentPath then Inl InvalidResourcePath
      else let segs = filter (\<lambda>segment. segment \<noteq> []) (splitSlash documentPath)
           in if even (length segs) then Inl NotADocumentPath else Inr segs)"

text \<open>
  The field \<open>lineLoginState\<close> holds the documents at and below the collection of that name,
  each under its path relative to the collection. The store itself refuses some document
  paths (Firestore refuses the ids \<open>.\<close> and \<open>..\<close>, among others); which ones it refuses is the
  parameter \<open>storeAccepts\<close>, and a call on a refused path throws.
\<close>

definition docKey :: "string list \<Rightarrow> string" where
  "docKey segs = joinWith ''/'' segs"

section \<open>Login states\<close>

definition generateAndWriteLineLoginState ::
  "(string list \<Rightarrow> bool) \<Rightarrow> byte list \<Rightarrow> Timestamp \<Rightarrow> Database \<Rightarrow> (error + string) \<times> Database" where
  "generateAndWriteLineLoginState storeAccepts randomBytes16 now db =
     (let state = createRandomId randomBytes16 in
      case docSegments state of
        Inl e \<Rightarrow> (Inl e, db)
      | Inr segs \<Rightarrow>
          if \<not> storeAccepts segs then (Inl StoreRejected, db)
          else (case docCreate (lineLoginState db) (docKey segs) \<lparr>state_createdAt = now\<rparr> of
                  None \<Rightarrow> (Inl AlreadyExists, db)
                | Some c \<Rightarrow>
                    (Inr state,
                     db\<lparr>lineLoginState := c,
                        writes := writes db @ [Create ''lineLoginState'' (docKey segs)]\<rparr>)))"

text \<open>
  \<open>checkExistsAndDeleteState\<close> builds the reference with \<open>doc(state)\<close>, reads it and, when the
  data is not \<open>undefined\<close>, deletes it. The result is the boolean, or the error thrown.
\<close>

definition checkExistsAndDeleteState ::
  "(string list \<Rightarrow> bool) \<Rightarrow> string \<Rightarrow> Database \<Rightarrow> (error + bool) \<times> Database" where
  "checkExistsAndDeleteState storeAccepts state db =
     (case docSegments state of
        Inl e \<Rightarrow> (Inl e, db)
      | Inr segs \<Rightarrow>
          if \<not> storeAccepts segs then (Inl StoreRejected, db)
          else (case docData (lineLoginState db) (docKey segs) of
                  Some data \<Rightarrow>
                    (Inr True,
                     db\<lparr>lineLoginState := docDelete (lineLoginState db) (docKey segs),
                        writes := writes db @ [Delete ''lineLoginState'' (docKey segs)]\<rparr>)
                | None \<Rightarrow> (Inr False, db)))"





section \<open>Users\<close>

text \<open>\<open>getUser\<close> returns the object \<open>{name, classInTimeTable, imageFileHash}\<close>.\<close>

definition getUser :: "UserId \<Rightarrow> Database \<Rightarrow> error + (string \<times> ClassOfWeek \<times> FileHash)" where
  "getUser userId db =
     (case docData (user db) userId of
        None \<Rightarrow> Inl UserNotExists
      | Some data \<Rightarrow> Inr (name data, classInTimeTable data, imageFileHash data))"

definition getUserFromLineAccountId :: "LineUserId \<Rightarrow> Database \<Rightarrow> (UserId \<times> UserData) option" where
  "getUserFromLineAccountId lineId db =
     (case whereEq lineUserId lineId (user db) of
        [] \<Rightarrow> None
      | queryDocumentSnapshot # _ \<Rightarrow> Some queryDocumentSnapshot)"

text \<open>UTF-8 of a string whose code units are below 256.\<close>

definition utf8 :: "string \<Rightarrow> byte list" where
  "utf8 s = concat (map (\<lambda>c. let n = (of_char c :: nat) in
                if n < 128 then [of_nat n] else [of_nat (192 + n div 64), of_nat (128 + n mod 64)]) s)"

definition createHashFromBuffer :: "(byte list \<Rightarrow> string) \<Rightarrow> byte list \<Rightarrow> string \<Rightarrow> FileHash" where
  "createHashFromBuffer sha256 buffer mimeType = sha256 (buffer @ utf8 mimeType)"

text \<open>\<open>file.save\<close> writes the object named by the hash, replacing one of the same name.\<close>

definition saveFile ::
  "(byte list \<Rightarrow> string) \<Rightarrow> byte list \<Rightarrow> string \<Rightarrow> Database \<Rightarrow> FileHash \<times> Database" where
  "saveFile sha256 buffer mimeType db =
     (let hash = createHashFromBuffer sha256 buffer mimeType in
      (hash,
       db\<lparr>bucket := docDelete (bucket db) hash @ [(hash, buffer, mimeType)],
          writes := writes db @ [FileSave hash]\<rparr>))"

text \<open>
  \<open>httpGet\<close> stands for \<open>axios.get(url, {responseType: "arraybuffer"})\<close>: a failure, or the
  body with its \<open>content-type\<close> header, which may be absent; hashing an absent header throws.
\<close>

definition saveUserImageFromUrl ::
  "(byte list \<Rightarrow> string) \<Rightarrow> (string \<Rightarrow> (byte list \<times> string option) option) \<Rightarrow> string \<Rightarrow> Database
   \<Rightarrow> (error + FileHash) \<times> Database" where
  "saveUserImageFromUrl sha256 httpGet url db =
     (case httpGet url of
        None \<Rightarrow> (Inl RequestFailed, db)
      | Some (buffer, None) \<Rightarrow> (Inl MissingContentType, db)
      | Some (buffer, Some mimeType) \<Rightarrow>
          (let (hash, db') = saveFile sha256 buffer mimeType db in (Inr hash, db')))"

definition createUser ::
  "(byte list \<Rightarrow> string) \<Rightarrow> (string \<Rightarrow> (byte list \<times> string option) option)
   \<Rightarrow> byte list \<Rightarrow> byte list \<Rightarrow> Timestamp
   \<Rightarrow> string \<Rightarrow> string \<Rightarrow> LineUserId \<Rightarrow> Database \<Rightarrow> (error + AccessToken) \<times> Database" where
  "createUser sha256 httpGet randomBytes16 randomBytes24 now userName imageUrl lineId db =
     (let userId = createRandomId randomBytes16 in
      case saveUserImageFromUrl sha256 httpGet imageUrl db of
        (Inl e, db1) \<Rightarrow> (Inl e, db1)
      | (Inr imageHash, db1) \<Rightarrow>
          (let accessToken = createAccessToken randomBytes24 in
           case docCreate (user db1) userId
                  \<lparr>name = userName,
                   lineUserId = lineId,
                   imageFileHash = imageHash,
                   lastIssuedAccessTokenHash = hashAccessToken sha256 accessToken,
                   classInTimeTable =
                     \<lparr>monday =
                        \<lparr>class1 = None, class2 = None, class3 = None, class4 = None, class5 = None\<rparr>,
                      tuesday =
                        \<lparr>class1 = None, class2 = None, class3 = None, class4 = None, class5 = None\<rparr>,
                      wednesday =
                        \<lparr>class1 = None, class2 = None, class3 = None, class4 = None, class5 = None\<rparr>,
                      thursday =
                        \<lparr>class1 = None, class2 = None, class3 = None, class4 = None, class5 = None\<rparr>,
                      friday =
                        \<lparr>class1 = None, class2 = None, class3 = None, class4 = None, class5 = None\<rparr>,
                      saturday =
                        \<lparr>class1 = None, class2 = None, class3 = None, class4 = None, class5 = None\<rparr>\<rparr>,
                   createdAt = now\<rparr> of
             None \<Rightarrow> (Inl AlreadyExists, db1)
           | Some c \<Rightarrow>
               (Inr accessToken,
                db1\<lparr>user := c, writes := writes db1 @ [Create ''user'' userId]\<rparr>)))"

definition updateAccessToken ::
  "(byte list \<Rightarrow> string) \<Rightarrow> byte list \<Rightarrow> UserId \<Rightarrow> Database \<Rightarrow> (error + AccessToken) \<times> Database" where
  "updateAccessToken sha256 randomBytes24 userId db =
     (let newAccessToken = createAccessToken randomBytes24 in
      case docData (user db) userId of
        None \<Rightarrow> (Inl NotFound, db)
      | Some _ \<Rightarrow>
          (Inr newAccessToken,
           db\<lparr>user := docModify (user db) userId
                         (\<lambda>d. d\<lparr>lastIssuedAccessTokenHash := hashAccessToken sha256 newAccessToken\<rparr>),
              writes := writes db @ [Update ''user'' userId]\<rparr>))"

definition verifyAccessTokenAndGetUserData ::
  "(byte list \<Rightarrow> string) \<Rightarrow> AccessToken \<Rightarrow> Database \<Rightarrow> error + UserOutType" where
  "verifyAccessTokenAndGetUserData sha256 accessToken db =
     (let accessTokenHash = hashAccessToken sha256 accessToken in
      case whereEq lastIssuedAccessTokenHash accessTokenHash (user db) of
        [] \<Rightarrow> Inl InvalidAccessToken
      | (docId, data) # _ \<Rightarrow>
          Inr \<lparr>uo_id = docId,
               uo_name = name data,
               uo_imageFileHash = imageFileHash data,
               uo_classInTimeTable = classInTimeTable data\<rparr>)"

text \<open>
  \<open>setClass\<close> writes \<open>{classInTimeTable: {[week]: {[time]: classId}}}\<close> with \<open>merge: true\<close>:
  one leaf of the stored document. On a missing document Firestore would create one that
  holds this leaf alone; \<open>UserData\<close> has no such value, so the model marks that case
  \<open>MergeTargetMissing\<close>. The document id comes from a document found by the query before.
\<close>

definition setClass ::
  "(byte list \<Rightarrow> string) \<Rightarrow> AccessToken \<Rightarrow> Week \<Rightarrow> Time \<Rightarrow> ClassId option \<Rightarrow> Database
   \<Rightarrow> (error + UserOutType) \<times> Database" where
  "setClass sha256 accessToken week time classId db =
     (case verifyAccessTokenAndGetUserData sha256 accessToken db of
        Inl e \<Rightarrow> (Inl e, db)
      | Inr userData \<Rightarrow>
          (case docData (user db) (uo_id userData) of
             None \<Rightarrow> (Inl MergeTargetMissing, db)
           | Some _ \<Rightarrow>
               (Inr (userData
                     \<lparr>uo_classInTimeTable :=
                        putDay (uo_classInTimeTable userData) week
                          (putTime (getDay (uo_classInTimeTable userData) week) time classId)\<rparr>),
                db\<lparr>user := docModify (user db) (uo_id userData)
                              (\<lambda>d. d\<lparr>classInTimeTable := putCell (classInTimeTable d) week time classId\<rparr>),
                   writes := writes db @ [SetMerge ''user'' (uo_id userData)]\<rparr>)))"

section \<open>The callback of the LINE login\<close>

text \<open>
  A value of type \<open>unknown\<close>, of which the code asks only \<open>typeof v === "string"\<close>.
\<close>

datatype JsValue = JString string | JOther

text \<open>The payload that \<open>jsonWebToken.verify\<close> hands to its callback: \<open>iss\<close>, \<open>sub\<close>, \<open>name\<close>, \<open>picture\<close>.\<close>

datatype Decoded = Decoded (d_iss: JsValue) (d_sub: JsValue) (d_name: JsValue) (d_picture: JsValue)

datatype LineData = LineData (l_sub: LineUserId) (l_name: string) (l_picture: string)

text \<open>
  What one request takes from outside the program: the digest, the two HTTP calls, the
  verification of a JSON web token under the channel secret, the platform's \<open>URL\<close> class
  (\<open>new URL(s).toString()\<close>, \<open>None\<close> when the constructor throws), the random bytes drawn,
  the clock, and the document paths the store accepts.
\<close>

record Env =
  env_sha256 :: "byte list \<Rightarrow> string"
  env_httpGet :: "string \<Rightarrow> (byte list \<times> string option) option"
  env_postToken :: "string \<Rightarrow> string option"
  env_jwtVerify :: "string \<Rightarrow> Decoded option"
  env_urlHref :: "string \<Rightarrow> string option"
  env_randomBytes16 :: "byte list"
  env_randomBytes24 :: "byte list"
  env_now :: Timestamp
  env_storeAccepts :: "string list \<Rightarrow> bool"

text \<open>
  What the handler does to the response: a redirect, a status with a body, or nothing
  because the handler's promise was rejected.
\<close>

datatype Response = Redirect string | StatusSend nat string | Unhandled error

definition appHostName :: string where
  "appHostName = ''clavision.web.app''"

definition appHttpsSchemeAndHostName :: string where
  "appHttpsSchemeAndHostName = ''https://'' @ appHostName"

text \<open>
  \<open>encodeURIComponent\<close> keeps letters, digits and \<open>- _ . ! ~ * ' ( )\<close> and writes every
  other character as the \<open>%XX\<close> of its UTF-8 bytes; \<open>encodeURIComponentRFC3986\<close> then
  escapes \<open>! * ' ( )\<close> as well.
\<close>

definition hexDigitUpper :: "nat \<Rightarrow> char" where
  "hexDigitUpper n = ''0123456789ABCDEF'' ! (n mod 16)"

definition percentByte :: "byte \<Rightarrow> string" where
  "percentByte b = [CHR ''%'', hexDigitUpper (unat b div 16), hexDigitUpper (unat b mod 16)]"

definition isUriUnreserved :: "char \<Rightarrow> bool" where
  "isUriUnreserved c =
     (let n = (of_char c :: nat) in
      (48 \<le> n \<and> n \<le> 57) \<or> (65 \<le> n \<and> n \<le> 90) \<or> (97 \<le> n \<and> n \<le> 122)
      \<or> c \<in> set ''-_.!~*'()'')"

definition encodeURIComponent :: "string \<Rightarrow> string" where
  "encodeURIComponent text =
     concat (map (\<lambda>c. if isUriUnreserved c then [c] else concat (map percentByte (utf8 [c]))) text)"

definition encodeURIComponentRFC3986 :: "string \<Rightarrow> string" where
  "encodeURIComponentRFC3986 text =
     concat (map (\<lambda>c. if c \<in> set ''!*'()'' then percentByte (of_nat (of_char c)) else [c])
               (encodeURIComponent text))"

definition mapToUrlEncodeMap :: "(string \<times> string) list \<Rightarrow> string" where
  "mapToUrlEncodeMap m =
     joinWith ''&''
       (map (\<lambda>(key, val). encodeURIComponentRFC3986 key @ ''='' @ encodeURIComponentRFC3986 val) m)"

text \<open>\<open>urlFrom\<close>: the text handed to \<open>new URL\<close>, then the platform's serialisation of it.\<close>

definition urlFrom ::
  "(string \<Rightarrow> string option) \<Rightarrow> string \<Rightarrow> string list \<Rightarrow> (string \<times> string) list
   \<Rightarrow> (string \<times> string) list \<Rightarrow> string option" where
  "urlFrom urlHref hostName path query fragment =
     urlHref (''https://'' @ hostName
       @ (if path = [] then [] else ''/'' @ joinWith ''/'' (map encodeURIComponent path))
       @ (if query = [] then [] else ''?'' @ mapToUrlEncodeMap query)
       @ (if fragment = [] then [] else ''#'' @ mapToUrlEncodeMap fragment))"

definition createAccessTokenUrl :: "(string \<Rightarrow> string option) \<Rightarrow> string \<Rightarrow> string option" where
  "createAccessTokenUrl urlHref accessToken =
     urlFrom urlHref appHostName [] [] [(''accessToken'', accessToken)]"

definition verifyAccessTokenAndGetData ::
  "(string \<Rightarrow> Decoded option) \<Rightarrow> (string \<Rightarrow> string option) \<Rightarrow> string \<Rightarrow> error + LineData" where
  "verifyAccessTokenAndGetData jwtVerify urlHref idToken =
     (case jwtVerify idToken of
        None \<Rightarrow> Inl TokenInvalid
      | Some decodedData \<Rightarrow>
          (case (d_iss decodedData, d_name decodedData, d_sub decodedData, d_picture decodedData) of
             (JString iss, JString nm, JString sub, JString picture) \<Rightarrow>
               (if iss \<noteq> ''https://access.line.me'' then Inl TokenDataInvalid
                else case urlHref picture of
                       None \<Rightarrow> Inl InvalidURL
                     | Some pictureUrl \<Rightarrow> Inr (LineData sub nm pictureUrl))
           | _ \<Rightarrow> Inl TokenDataInvalid))"

text \<open>
  \<open>response.redirect(createAccessTokenUrl(accessToken).toString())\<close>, which both successful
  branches of the handler end with.
\<close>

definition redirectWithAccessToken :: "Env \<Rightarrow> AccessToken \<Rightarrow> Response" where
  "redirectWithAccessToken env accessToken =
     (case createAccessTokenUrl (env_urlHref env) accessToken of
        None \<Rightarrow> Unhandled InvalidURL
      | Some url \<Rightarrow> Redirect url)"

definition lineLoginCallback :: "Env \<Rightarrow> JsValue \<Rightarrow> JsValue \<Rightarrow> Database \<Rightarrow> Response \<times> Database" where
  "lineLoginCallback env queryCode queryState db =
     (case (queryCode, queryState) of
        (JString code, JString state) \<Rightarrow>
          (case checkExistsAndDeleteState (env_storeAccepts env) state db of
             (Inl e, db1) \<Rightarrow> (Unhandled e, db1)
           | (Inr False, db1) \<Rightarrow>
               (StatusSend 400
                  (''LINE LogIn Error: Definy dose not generate state ('' @ state @ '')''), db1)
           | (Inr True, db1) \<Rightarrow>
               (case env_postToken env code of
                  None \<Rightarrow> (Unhandled RequestFailed, db1)
                | Some idToken \<Rightarrow>
                    (case verifyAccessTokenAndGetData (env_jwtVerify env) (env_urlHref env) idToken of
                       Inl e \<Rightarrow> (Unhandled e, db1)
                     | Inr lineData \<Rightarrow>
                         (case getUserFromLineAccountId (l_sub lineData) db1 of
                            None \<Rightarrow>
                              (case createUser (env_sha256 env) (env_httpGet env)
                                      (env_randomBytes16 env) (env_randomBytes24 env) (env_now env)
                                      (l_name lineData) (l_picture lineData) (l_sub lineData) db1 of
                                 (Inl e, db2) \<Rightarrow> (Unhandled e, db2)
                               | (Inr accessToken, db2) \<Rightarrow>
                                   (redirectWithAccessToken env accessToken, db2))
                          | Some userData \<Rightarrow>
                              (case updateAccessToken (env_sha256 env) (env_randomBytes24 env)
                                      (fst userData) db1 of
                                 (Inl e, db2) \<Rightarrow> (Unhandled e, db2)
                               | (Inr accessToken, db2) \<Rightarrow>
                                   (redirectWithAccessToken env accessToken, db2))))))
      | _ \<Rightarrow> (Redirect appHttpsSchemeAndHostName, db))"

section \<open>Concrete inputs\<close>

text \<open>
  Inputs on which the theorems below are instantiated: four draws of 24 random bytes (the
  tokens of the first two agree on their first 25 characters), two draws of 16, an HTTP
  server that answers every request with a small PNG, and the store after the sign-ups of
  two users, whose records are \<open>exampleAlice\<close> and \<open>exampleBob\<close>.
  \<open>toHex\<close> stands in for the digest there.
\<close>

definition exampleBytesA :: "byte list" where
  "exampleBytesA =
     [0x00, 0x11, 0x22, 0x33, 0x44, 0x55, 0x66, 0x77, 0x88, 0x99, 0xaa, 0xbb,
      0xcc, 0xdd, 0xee, 0xff, 0x00, 0x11, 0x22, 0x33, 0x44, 0x55, 0x66, 0x77]"

definition exampleBytesB :: "byte list" where
  "exampleBytesB =
     [0x00, 0x11, 0x22, 0x33, 0x44, 0x55, 0x66, 0x77, 0x88, 0x99, 0xaa, 0xbb,
      0xc0, 0x00, 0x00, 0x00, 0x00, 0x00, 0x00, 0x00, 0x00, 0x00, 0x00, 0x00]"

definition exampleBytesC :: "byte list" where
  "exampleBytesC =
     [0xfe, 0xdc, 0xba, 0x98, 0x76, 0x54, 0x32, 0x10, 0x0f, 0x1e, 0x2d, 0x3c,
      0x4b, 0x5a, 0x69, 0x78, 0x87, 0x96, 0xa5, 0xb4, 0xc3, 0xd2, 0xe1, 0xf0]"

definition exampleIdBytes :: "byte list" where
  "exampleIdBytes =
     [0x01, 0x23, 0x45, 0x67, 0x89, 0xab, 0xcd, 0xef, 0x10, 0x32, 0x54, 0x76, 0x98, 0xba, 0xdc, 0xfe]"

definition exampleBytesD :: "byte list" where
  "exampleBytesD =
     [0x5a, 0x5a, 0x5a, 0x5a, 0x5a, 0x5a, 0x5a, 0x5a, 0x5a, 0x5a, 0x5a, 0x5a,
      0x5a, 0x5a, 0x5a, 0x5a, 0x5a, 0x5a, 0x5a, 0x5a, 0x5a, 0x5a, 0x5a, 0x5a]"

definition exampleIdBytes2 :: "byte list" where
  "exampleIdBytes2 =
     [0xff, 0xee, 0xdd, 0xcc, 0xbb, 0xaa, 0x99, 0x88, 0x77, 0x66, 0x55, 0x44, 0x33, 0x22, 0x11, 0x00]"

definition exampleHttpGet :: "string \<Rightarrow> (byte list \<times> string option) option" where
  "exampleHttpGet url = Some ([0x89, 0x50, 0x4e, 0x47], Some ''image/png'')"

definition emptyDatabase :: Database where
  "emptyDatabase = \<lparr>lineLoginState = [], user = [], bucket = [], writes = []\<rparr>"

definition emptyTimeTable :: ClassOfWeek where
  "emptyTimeTable =
     \<lparr>monday = \<lparr>class1 = None, class2 = None, class3 = None, class4 = None, class5 = None\<rparr>,
      tuesday = \<lparr>class1 = None, class2 = None, class3 = None, class4 = None, class5 = None\<rparr>,
      wednesday = \<lparr>class1 = None, class2 = None, class3 = None, class4 = None, class5 = None\<rparr>,
      thursday = \<lparr>class1 = None, class2 = None, class3 = None, class4 = None, class5 = None\<rparr>,
      friday = \<lparr>class1 = None, class2 = None, class3 = None, class4 = None, class5 = None\<rparr>,
      saturday = \<lparr>class1 = None, class2 = None, class3 = None, class4 = None, class5 = None\<rparr>\<rparr>"

definition exampleAlice :: UserData where
  "exampleAlice =
     \<lparr>name = ''Alice'', lineUserId = ''U0123'',
      imageFileHash = ''89504e47696d6167652f706e67'',
      lastIssuedAccessTokenHash = ''000111122223333444455556666777788889999aaaabbbbc'',
      classInTimeTable = emptyTimeTable, createdAt = 0\<rparr>"

definition exampleBob :: UserData where
  "exampleBob =
     \<lparr>name = ''Bob'', lineUserId = ''U4567'',
      imageFileHash = ''89504e47696d6167652f706e67'',
      lastIssuedAccessTokenHash = ''5aa55aa55aa55aa55aa55aa55aa55aa55aa55aa55aa55aa5'',
      classInTimeTable = emptyTimeTable, createdAt = 1\<rparr>"

definition exampleDatabase :: Database where
  "exampleDatabase =
     snd (createUser toHex exampleHttpGet exampleIdBytes2 exampleBytesD 1
            ''Bob'' ''https://example.com/bob.png'' ''U4567''
            (snd (createUser toHex exampleHttpGet exampleIdBytes exampleBytesA 0
                    ''Alice'' ''https://example.com/alice.png'' ''U0123'' emptyDatabase)))"

definition exampleUserId :: UserId where
  "exampleUserId = createRandomId exampleIdBytes"

definition exampleTokenA :: AccessToken where
  "exampleTokenA = createAccessToken exampleBytesA"

definition exampleTokenC :: AccessToken where
  "exampleTokenC = createAccessToken exampleBytesC"

text \<open>
  A store that refuses the ids \<open>.\<close> and \<open>..\<close>, a state drawn for a login, and the store after
  that state was issued.
\<close>

definition exampleStoreAccepts :: "string list \<Rightarrow> bool" where
  "exampleStoreAccepts segs = (''.'' \<notin> set segs \<and> ''..'' \<notin> set segs)"

definition exampleStateBytes :: "byte list" where
  "exampleStateBytes =
     [0xa0, 0xa1, 0xa2, 0xa3, 0xa4, 0xa5, 0xa6, 0xa7, 0xa8, 0xa9, 0xaa, 0xab, 0xac, 0xad, 0xae, 0xaf]"

definition exampleState :: string where
  "exampleState = createRandomId exampleStateBytes"

definition exampleStateDatabase :: Database where
  "exampleStateDatabase =
     snd (generateAndWriteLineLoginState exampleStoreAccepts exampleStateBytes 7 exampleDatabase)"

definition exampleEnv :: Env where
  "exampleEnv =
     \<lparr>env_sha256 = toHex,
      env_httpGet = exampleHttpGet,
      env_postToken = (\<lambda>code. None),
      env_jwtVerify = (\<lambda>idToken. None),
      env_urlHref = (\<lambda>s. Some s),
      env_randomBytes16 = exampleIdBytes,
      env_randomBytes24 = exampleBytesC,
      env_now = 0,
      env_storeAccepts = exampleStoreAccepts\<rparr>"

section \<open>The byte array of a token\<close>

declare accessTokenToTypedArray_loop.simps [simp del]

lemma accessTokenToTypedArray_loop_eq:
  "i \<le> 24 \<Longrightarrow> length binary = 24 \<Longrightarrow>
   accessTokenToTypedArray_loop tok i binary =
     take i binary @ map (\<lambda>j. toUint8 (parseInt16 (slice tok j (j + 2)))) [i..<24]"
proof (induction tok i binary rule: accessTokenToTypedArray_loop.induct)
  case (1 tok i binary)
  show ?case
  proof (cases "i < 24")
    case True
    let ?v = "toUint8 (parseInt16 (slice tok i (i + 2)))"
    have step: "accessTokenToTypedArray_loop tok i binary =
                accessTokenToTypedArray_loop tok (i + 1) (binary[i := ?v])"
      using True by (subst accessTokenToTypedArray_loop.simps) simp
    have ih: "accessTokenToTypedArray_loop tok (i + 1) (binary[i := ?v]) =
              take (i + 1) (binary[i := ?v])
                @ map (\<lambda>j. toUint8 (parseInt16 (slice tok j (j + 2)))) [i + 1..<24]"
      using "1.IH" [OF True] True "1.prems" by simp
    have tk: "take (i + 1) (binary[i := ?v]) = take i binary @ [?v]"
      using True "1.prems" by (simp add: take_Suc_conv_app_nth)
    have up: "[i..<24] = i # [i + 1..<24]"
      using True by (simp add: upt_conv_Cons)
    show ?thesis
      unfolding step ih tk up by simp
  next
    case False
    with "1.prems" have "i = 24" by simp
    then show ?thesis
      using "1.prems" by (subst accessTokenToTypedArray_loop.simps) simp
  qed
qed

lemma accessTokenToTypedArray_eq:
  "accessTokenToTypedArray tok = map (\<lambda>j. toUint8 (parseInt16 (slice tok j (j + 2)))) [0..<24]"
  unfolding accessTokenToTypedArray_def
  by (subst accessTokenToTypedArray_loop_eq) simp_all

lemma slice_take: "b \<le> n \<Longrightarrow> slice (take n s) a b = slice s a b"
  by (simp add: slice_def drop_take min_def)

lemma accessTokenToTypedArray_take:
  "accessTokenToTypedArray (take 25 tok) = accessTokenToTypedArray tok"
  unfolding accessTokenToTypedArray_eq
  by (rule map_cong) (simp_all add: slice_take)

text \<open>
  Claim C10. The digest of a token depends on its first 25 characters only: the loop reads
  the overlapping slices \<open>[i, i + 2)\<close> for \<open>i = 0, ..., 23\<close>, so two tokens that agree on
  their first 25 characters have the same digest, whatever SHA-256 is.
\<close>

theorem hashAccessToken_first_25:
  "take 25 t1 = take 25 t2 \<Longrightarrow> hashAccessToken sha256 t1 = hashAccessToken sha256 t2"
proof -
  assume eq: "take 25 t1 = take 25 t2"
  have "accessTokenToTypedArray t1 = accessTokenToTypedArray (take 25 t1)"
    by (simp only: accessTokenToTypedArray_take)
  also have "\<dots> = accessTokenToTypedArray (take 25 t2)"
    by (simp only: eq)
  also have "\<dots> = accessTokenToTypedArray t2"
    by (simp only: accessTokenToTypedArray_take)
  finally show ?thesis
    by (simp add: hashAccessToken_def)
qed

theorem hashAccessToken_first_25_witness:
  "take 25 ''00112233445566778899aabbccddeeff0011223344556677''
     = take 25 ''00112233445566778899aabbc00000000000000000000000''
   \<and> hashAccessToken toHex ''00112233445566778899aabbccddeeff0011223344556677''
     = hashAccessToken toHex ''00112233445566778899aabbc00000000000000000000000''"
  using hashAccessToken_first_25 [of "''00112233445566778899aabbccddeeff0011223344556677''"
      "''00112233445566778899aabbc00000000000000000000000''" toHex]
  by simp

lemma createAccessToken_exampleBytesA:
  "createAccessToken exampleBytesA = ''00112233445566778899aabbccddeeff0011223344556677''"
  by code_simp

lemma createAccessToken_exampleBytesB:
  "createAccessToken exampleBytesB = ''00112233445566778899aabbc00000000000000000000000''"
  by code_simp

lemma createAccessToken_exampleBytesC:
  "createAccessToken exampleBytesC = ''fedcba98765432100f1e2d3c4b5a69788796a5b4c3d2e1f0''"
  by code_simp

text \<open>
  Claim C5. \<open>hashAccessToken\<close> is a function, so the same token always has the same digest.
  Distinct tokens need not have distinct digests, however injective SHA-256 is: the two
  tokens below are both results of \<open>createAccessToken\<close>, differ from their 26th character
  on, and are turned into the same byte array.
\<close>

theorem hashAccessToken_collision:
  "createAccessToken exampleBytesA \<noteq> createAccessToken exampleBytesB
   \<and> length (createAccessToken exampleBytesA) = 48
   \<and> length (createAccessToken exampleBytesB) = 48
   \<and> accessTokenToTypedArray (createAccessToken exampleBytesA)
       = accessTokenToTypedArray (createAccessToken exampleBytesB)
   \<and> hashAccessToken sha256 (createAccessToken exampleBytesA)
       = hashAccessToken sha256 (createAccessToken exampleBytesB)"
proof -
  have same: "accessTokenToTypedArray ''00112233445566778899aabbccddeeff0011223344556677''
        = accessTokenToTypedArray ''00112233445566778899aabbc00000000000000000000000''"
    by code_simp
  show ?thesis
    unfolding createAccessToken_exampleBytesA createAccessToken_exampleBytesB hashAccessToken_def
    using same by simp
qed

section \<open>The timetable grid\<close>

lemma getDay_putDay: "getDay (putDay g w d) w' = (if w' = w then d else getDay g w')"
  by (cases w; cases w'; simp)

lemma getTime_putTime: "getTime (putTime d t c) t' = (if t' = t then c else getTime d t')"
  by (cases t; cases t'; simp)

lemma putDay_putDay: "putDay (putDay g w d) w d' = putDay g w d'"
  by (cases w) simp_all

lemma putTime_putTime: "putTime (putTime d t c) t c' = putTime d t c'"
  by (cases t) simp_all

lemma cell_putCell:
  "cell (putCell g w t c) w' t' = (if w' = w \<and> t' = t then c else cell g w' t')"
  by (simp add: cell_def putCell_def getDay_putDay getTime_putTime)

lemma putCell_idem: "putCell (putCell g w t c) w t c = putCell g w t c"
  by (simp add: putCell_def getDay_putDay putDay_putDay putTime_putTime)

lemma set_allCells: "set allCells = UNIV"
proof -
  have w: "set allWeeks = UNIV"
    using Week.exhaust by (auto simp: allWeeks_def)
  have t: "set allTimes = UNIV"
    using Time.exhaust by (auto simp: allTimes_def)
  show ?thesis
    by (simp add: allCells_def w t)
qed

lemma length_allCells: "length allCells = 30"
  by (simp add: allCells_def allWeeks_def allTimes_def)

lemma distinct_allCells: "distinct allCells"
  by (simp add: allCells_def allWeeks_def allTimes_def distinct_product)

lemma length_removeAll_allCells: "length (removeAll (w, t) allCells) = 29"
  by (cases w; cases t; simp add: allCells_def allWeeks_def allTimes_def)

section \<open>Documents and queries\<close>

lemma whereEq_Nil_iff: "whereEq field x c = [] \<longleftrightarrow> (\<forall>(k, v) \<in> set c. field v \<noteq> x)"
  by (auto simp: whereEq_def filter_empty_conv)

lemma whereEq_Cons_mem: "whereEq field x c = (k, v) # rest \<Longrightarrow> (k, v) \<in> set c \<and> field v = x"
proof -
  assume "whereEq field x c = (k, v) # rest"
  then have "(k, v) \<in> set (filter (\<lambda>(k, v). field v = x) c)"
    by (simp add: whereEq_def)
  then show ?thesis by simp
qed

lemma docModify_Nil: "docModify [] k f = []"
  by (simp add: docModify_def)

lemma docModify_Cons:
  "docModify ((a, b) # c) k f = (a, if a = k then f b else b) # docModify c k f"
  by (simp add: docModify_def)

lemma whereEq_Nil: "whereEq field x [] = []"
  by (simp add: whereEq_def)

lemma whereEq_Cons:
  "whereEq field x ((a, b) # c) =
     (if field b = x then (a, b) # whereEq field x c else whereEq field x c)"
  by (simp add: whereEq_def)

lemmas store_simps = docModify_Nil docModify_Cons whereEq_Nil whereEq_Cons


lemma map_of_docModify:
  "map_of (docModify c k f) k' = (if k' = k then map_option f (map_of c k) else map_of c k')"
  by (induction c) (auto simp: store_simps)

lemma whereEq_docModify_preserve:
  "(\<And>v. field (f v) = field v) \<Longrightarrow>
   whereEq field x (docModify c k f) = docModify (whereEq field x c) k f"
  by (induction c) (auto simp: store_simps)

lemma docModify_idem: "(\<And>v. f (f v) = f v) \<Longrightarrow> docModify (docModify c k f) k f = docModify c k f"
  by (induction c) (auto simp: store_simps)


lemma docDelete_absent: "map_of c k = None \<Longrightarrow> docDelete c k = c"
  by (induction c) (auto simp: docDelete_def split: if_splits)

lemma map_of_mem_Some: "(k, v) \<in> set c \<Longrightarrow> \<exists>v'. map_of c k = Some v'"
  by (induction c) auto

lemma whereEq_docModify_first:
  "map_of c k = Some u \<Longrightarrow> (\<forall>(k', v) \<in> set c. k' \<noteq> k \<longrightarrow> field v \<noteq> x) \<Longrightarrow> field (f u) = x \<Longrightarrow>
   \<exists>rest. whereEq field x (docModify c k f) = (k, f u) # rest"
  by (induction c) (auto simp: store_simps split: if_splits)

lemma whereEq_docModify_none:
  "(\<forall>(k', v) \<in> set c. k' \<noteq> k \<longrightarrow> field v \<noteq> x) \<Longrightarrow> (\<And>v. field (f v) \<noteq> x) \<Longrightarrow>
   whereEq field x (docModify c k f) = []"
  by (induction c) (auto simp: store_simps)

lemma map_of_insertDoc_absent: "map_of c k = None \<Longrightarrow> map_of (insertDoc (k, v) c) k = Some v"
  by (induction c) auto

lemma docData_docCreate:
  "docCreate c k v = Some c' \<Longrightarrow> docData c k = None \<and> docData c' k = Some v"
  by (auto simp: docCreate_def docData_def map_of_insertDoc_absent split: option.splits)

section \<open>The store of the concrete inputs\<close>

lemma exampleUserId_eval: "exampleUserId = ''0123456789abcdef1032547698badcfe''"
  by code_simp

lemma exampleTokenA_eval: "exampleTokenA = ''00112233445566778899aabbccddeeff0011223344556677''"
  by (simp add: exampleTokenA_def createAccessToken_exampleBytesA)

lemma exampleTokenC_eval: "exampleTokenC = ''fedcba98765432100f1e2d3c4b5a69788796a5b4c3d2e1f0''"
  by (simp add: exampleTokenC_def createAccessToken_exampleBytesC)

lemma hash_exampleTokenA:
  "hashAccessToken toHex ''00112233445566778899aabbccddeeff0011223344556677''
     = ''000111122223333444455556666777788889999aaaabbbbc''"
  by code_simp

lemma hash_exampleTokenC:
  "hashAccessToken toHex ''fedcba98765432100f1e2d3c4b5a69788796a5b4c3d2e1f0''
     = ''feeddccbbaa9988776655443322110000ff11ee22dd33cc4''"
  by code_simp

lemma exampleDatabase_eval:
  "exampleDatabase =
     \<lparr>lineLoginState = [],
      user = [(''0123456789abcdef1032547698badcfe'', exampleAlice),
              (''ffeeddccbbaa99887766554433221100'', exampleBob)],
      bucket = [(''89504e47696d6167652f706e67'', [137, 80, 78, 71], ''image/png'')],
      writes = [FileSave ''89504e47696d6167652f706e67'',
                Create ''user'' ''0123456789abcdef1032547698badcfe'',
                FileSave ''89504e47696d6167652f706e67'',
                Create ''user'' ''ffeeddccbbaa99887766554433221100'']\<rparr>"
  by code_simp

lemmas example_evals =
  exampleUserId_eval exampleTokenA_eval exampleTokenC_eval exampleDatabase_eval
  createAccessToken_exampleBytesC hash_exampleTokenA hash_exampleTokenC

lemma example_lookup: "docData (user exampleDatabase) exampleUserId = Some exampleAlice"
  by (simp add: docData_def example_evals)

lemma example_update_fst:
  "fst (updateAccessToken toHex exampleBytesC exampleUserId exampleDatabase) = Inr exampleTokenC"
  by (simp add: updateAccessToken_def docData_def example_evals)

lemma example_update:
  "updateAccessToken toHex exampleBytesC exampleUserId exampleDatabase =
     (Inr exampleTokenC, snd (updateAccessToken toHex exampleBytesC exampleUserId exampleDatabase))"
  by (simp add: prod_eq_iff example_update_fst)

lemma example_others:
  "\<forall>(k, d) \<in> set (user exampleDatabase). k \<noteq> exampleUserId \<longrightarrow>
     lastIssuedAccessTokenHash d \<noteq> hashAccessToken toHex exampleTokenA
     \<and> lastIssuedAccessTokenHash d \<noteq> hashAccessToken toHex exampleTokenC"
  by (simp add: example_evals exampleBob_def)

lemma example_verify:
  "verifyAccessTokenAndGetUserData toHex exampleTokenA exampleDatabase =
     Inr \<lparr>uo_id = exampleUserId, uo_name = ''Alice'',
          uo_imageFileHash = ''89504e47696d6167652f706e67'',
          uo_classInTimeTable = emptyTimeTable\<rparr>"
  by (simp add: verifyAccessTokenAndGetUserData_def whereEq_def example_evals
      exampleAlice_def exampleBob_def)

section \<open>Verifying a token\<close>

text \<open>
  Claim C6. \<open>verifyAccessTokenAndGetUserData\<close> throws its invalid-session error exactly when
  no user document stores the digest of the presented token, it throws no other error, and
  when some document stores that digest it returns the id, name, image hash and timetable
  of a document that does.
\<close>

theorem verify_fails_iff_no_match:
  "(verifyAccessTokenAndGetUserData sha256 tok db = Inl InvalidAccessToken
      \<longleftrightarrow> (\<forall>(k, d) \<in> set (user db). lastIssuedAccessTokenHash d \<noteq> hashAccessToken sha256 tok))
   \<and> (\<forall>e. verifyAccessTokenAndGetUserData sha256 tok db = Inl e \<longrightarrow> e = InvalidAccessToken)
   \<and> ((\<exists>(k, d) \<in> set (user db). lastIssuedAccessTokenHash d = hashAccessToken sha256 tok)
        \<longrightarrow> (\<exists>(k, d) \<in> set (user db).
               lastIssuedAccessTokenHash d = hashAccessToken sha256 tok
               \<and> verifyAccessTokenAndGetUserData sha256 tok db =
                   Inr \<lparr>uo_id = k, uo_name = name d, uo_imageFileHash = imageFileHash d,
                        uo_classInTimeTable = classInTimeTable d\<rparr>))"
proof -
  let ?h = "hashAccessToken sha256 tok"
  let ?q = "whereEq lastIssuedAccessTokenHash ?h (user db)"
  show ?thesis
  proof (cases ?q)
    case Nil
    then have none: "\<forall>(k, d) \<in> set (user db). lastIssuedAccessTokenHash d \<noteq> ?h"
      by (simp add: whereEq_Nil_iff)
    have "verifyAccessTokenAndGetUserData sha256 tok db = Inl InvalidAccessToken"
      using Nil by (simp add: verifyAccessTokenAndGetUserData_def)
    with none show ?thesis by auto
  next
    case (Cons p rest)
    obtain k d where p: "p = (k, d)" by (cases p)
    from Cons p have mem: "(k, d) \<in> set (user db) \<and> lastIssuedAccessTokenHash d = ?h"
      using whereEq_Cons_mem by fastforce
    have res: "verifyAccessTokenAndGetUserData sha256 tok db =
          Inr \<lparr>uo_id = k, uo_name = name d, uo_imageFileHash = imageFileHash d,
               uo_classInTimeTable = classInTimeTable d\<rparr>"
      using Cons p by (simp add: verifyAccessTokenAndGetUserData_def)
    from mem res show ?thesis by auto
  qed
qed

theorem verify_fails_iff_no_match_witness:
  "(\<exists>(k, d) \<in> set (user exampleDatabase).
       lastIssuedAccessTokenHash d = hashAccessToken toHex exampleTokenA)
   \<and> verifyAccessTokenAndGetUserData toHex exampleTokenA exampleDatabase \<noteq> Inl InvalidAccessToken
   \<and> hashAccessToken toHex exampleTokenC
       \<notin> set (map (\<lambda>(k, d). lastIssuedAccessTokenHash d) (user exampleDatabase))
   \<and> verifyAccessTokenAndGetUserData toHex exampleTokenC exampleDatabase = Inl InvalidAccessToken"
proof -
  have a: "\<exists>(k, d) \<in> set (user exampleDatabase).
             lastIssuedAccessTokenHash d = hashAccessToken toHex exampleTokenA"
    by (simp add: example_evals exampleAlice_def)
  have c: "\<forall>(k, d) \<in> set (user exampleDatabase).
             lastIssuedAccessTokenHash d \<noteq> hashAccessToken toHex exampleTokenC"
    by (simp add: example_evals exampleAlice_def exampleBob_def)
  from verify_fails_iff_no_match [of toHex exampleTokenA exampleDatabase] a
  have a': "verifyAccessTokenAndGetUserData toHex exampleTokenA exampleDatabase \<noteq> Inl InvalidAccessToken"
    by blast
  from verify_fails_iff_no_match [of toHex exampleTokenC exampleDatabase] c
  have c': "verifyAccessTokenAndGetUserData toHex exampleTokenC exampleDatabase = Inl InvalidAccessToken"
    by blast
  have n: "hashAccessToken toHex exampleTokenC
             \<notin> set (map (\<lambda>(k, d). lastIssuedAccessTokenHash d) (user exampleDatabase))"
    by (simp add: example_evals exampleAlice_def exampleBob_def)
  from a a' n c' show ?thesis by blast
qed

section \<open>Reissuing a token\<close>

lemma updateAccessToken_Inr:
  "updateAccessToken sha256 rb uid db = (Inr tok, db') \<Longrightarrow>
   tok = createAccessToken rb
   \<and> (\<exists>u. docData (user db) uid = Some u)
   \<and> db' = db\<lparr>user := docModify (user db) uid
                          (\<lambda>d. d\<lparr>lastIssuedAccessTokenHash := hashAccessToken sha256 tok\<rparr>),
               writes := writes db @ [Update ''user'' uid]\<rparr>"
  by (auto simp: updateAccessToken_def Let_def split: option.splits)

lemma verify_after_update_new:
  assumes u: "docData (user db) uid = Some u"
    and others: "\<forall>(k, d) \<in> set (user db). k \<noteq> uid \<longrightarrow> lastIssuedAccessTokenHash d \<noteq> hashAccessToken sha256 tok"
  shows "verifyAccessTokenAndGetUserData sha256 tok
           (db\<lparr>user := docModify (user db) uid
                          (\<lambda>d. d\<lparr>lastIssuedAccessTokenHash := hashAccessToken sha256 tok\<rparr>),
               writes := w\<rparr>) =
         Inr \<lparr>uo_id = uid, uo_name = name u, uo_imageFileHash = imageFileHash u,
              uo_classInTimeTable = classInTimeTable u\<rparr>"
proof -
  let ?h = "hashAccessToken sha256 tok"
  let ?f = "\<lambda>d. d\<lparr>lastIssuedAccessTokenHash := ?h\<rparr>"
  have "\<exists>rest. whereEq lastIssuedAccessTokenHash ?h (docModify (user db) uid ?f) = (uid, ?f u) # rest"
    using u others by (intro whereEq_docModify_first) (simp_all add: docData_def)
  then obtain rest where
    "whereEq lastIssuedAccessTokenHash ?h (docModify (user db) uid ?f) = (uid, ?f u) # rest" ..
  then show ?thesis
    by (simp add: verifyAccessTokenAndGetUserData_def)
qed

text \<open>
  Claim C1. Let a user have a stored record, let \<open>updateAccessToken\<close> return a new token for
  that user, and let an older token have a digest different from the new token's (the
  digest separates the two tokens), where no other user stores either digest. Then
  verifying the older token throws the invalid-session error, and verifying the new token
  returns that user's id, name, image hash and timetable.
\<close>

theorem reissue_invalidates_old_token:
  assumes u: "docData (user db) uid = Some u"
    and upd: "updateAccessToken sha256 rb uid db = (Inr new, db')"
    and inj: "hashAccessToken sha256 old \<noteq> hashAccessToken sha256 new"
    and others: "\<forall>(k, d) \<in> set (user db). k \<noteq> uid \<longrightarrow>
                   lastIssuedAccessTokenHash d \<noteq> hashAccessToken sha256 old
                   \<and> lastIssuedAccessTokenHash d \<noteq> hashAccessToken sha256 new"
  shows "verifyAccessTokenAndGetUserData sha256 old db' = Inl InvalidAccessToken
         \<and> verifyAccessTokenAndGetUserData sha256 new db' =
             Inr \<lparr>uo_id = uid, uo_name = name u, uo_imageFileHash = imageFileHash u,
                  uo_classInTimeTable = classInTimeTable u\<rparr>"
proof -
  let ?hn = "hashAccessToken sha256 new"
  let ?f = "\<lambda>d. d\<lparr>lastIssuedAccessTokenHash := ?hn\<rparr>"
  from updateAccessToken_Inr [OF upd]
  have db': "db' = db\<lparr>user := docModify (user db) uid ?f,
                      writes := writes db @ [Update ''user'' uid]\<rparr>"
    by simp
  have "whereEq lastIssuedAccessTokenHash (hashAccessToken sha256 old) (docModify (user db) uid ?f) = []"
    using others inj by (intro whereEq_docModify_none) auto
  then have old: "verifyAccessTokenAndGetUserData sha256 old db' = Inl InvalidAccessToken"
    by (simp add: verifyAccessTokenAndGetUserData_def db')
  have "\<forall>(k, d) \<in> set (user db). k \<noteq> uid \<longrightarrow> lastIssuedAccessTokenHash d \<noteq> ?hn"
    using others by auto
  from verify_after_update_new [OF u this]
  have new: "verifyAccessTokenAndGetUserData sha256 new db' =
             Inr \<lparr>uo_id = uid, uo_name = name u, uo_imageFileHash = imageFileHash u,
                  uo_classInTimeTable = classInTimeTable u\<rparr>"
    unfolding db' .
  from old new show ?thesis by simp
qed

theorem reissue_invalidates_old_token_witness:
  "docData (user exampleDatabase) exampleUserId = Some exampleAlice
   \<and> fst (updateAccessToken toHex exampleBytesC exampleUserId exampleDatabase) = Inr exampleTokenC
   \<and> hashAccessToken toHex exampleTokenA \<noteq> hashAccessToken toHex exampleTokenC
   \<and> map snd (filter (\<lambda>(k, d). k \<noteq> exampleUserId) (user exampleDatabase)) = [exampleBob]
   \<and> lastIssuedAccessTokenHash exampleBob \<noteq> hashAccessToken toHex exampleTokenA
   \<and> lastIssuedAccessTokenHash exampleBob \<noteq> hashAccessToken toHex exampleTokenC
   \<and> verifyAccessTokenAndGetUserData toHex exampleTokenA
        (snd (updateAccessToken toHex exampleBytesC exampleUserId exampleDatabase))
      = Inl InvalidAccessToken
   \<and> verifyAccessTokenAndGetUserData toHex exampleTokenC
        (snd (updateAccessToken toHex exampleBytesC exampleUserId exampleDatabase))
      = Inr \<lparr>uo_id = exampleUserId, uo_name = ''Alice'',
             uo_imageFileHash = ''89504e47696d6167652f706e67'',
             uo_classInTimeTable = emptyTimeTable\<rparr>"
proof -
  have h3: "hashAccessToken toHex exampleTokenA \<noteq> hashAccessToken toHex exampleTokenC"
    by (simp add: example_evals)
  have h4: "map snd (filter (\<lambda>(k, d). k \<noteq> exampleUserId) (user exampleDatabase)) = [exampleBob]"
    "lastIssuedAccessTokenHash exampleBob \<noteq> hashAccessToken toHex exampleTokenA"
    "lastIssuedAccessTokenHash exampleBob \<noteq> hashAccessToken toHex exampleTokenC"
    by (simp_all add: example_evals exampleBob_def)
  from reissue_invalidates_old_token [OF example_lookup example_update h3 example_others]
  show ?thesis
    using example_lookup example_update_fst h3 h4 by (simp add: exampleAlice_def)
qed



section \<open>Writing one cell of the timetable\<close>

lemma verify_Inr_mem:
  "verifyAccessTokenAndGetUserData sha256 tok db = Inr ud \<Longrightarrow>
   \<exists>d rest. whereEq lastIssuedAccessTokenHash (hashAccessToken sha256 tok) (user db) = (uo_id ud, d) # rest
     \<and> uo_name ud = name d \<and> uo_imageFileHash ud = imageFileHash d
     \<and> uo_classInTimeTable ud = classInTimeTable d"
  by (auto simp: verifyAccessTokenAndGetUserData_def Let_def split: list.splits)

lemma verify_Inr_doc:
  "verifyAccessTokenAndGetUserData sha256 tok db = Inr ud \<Longrightarrow>
   \<exists>d0. docData (user db) (uo_id ud) = Some d0"
proof -
  assume "verifyAccessTokenAndGetUserData sha256 tok db = Inr ud"
  from verify_Inr_mem [OF this] obtain d rest where
    "whereEq lastIssuedAccessTokenHash (hashAccessToken sha256 tok) (user db) = (uo_id ud, d) # rest"
    by blast
  then have "(uo_id ud, d) \<in> set (user db)"
    using whereEq_Cons_mem by fastforce
  then show ?thesis
    unfolding docData_def by (rule map_of_mem_Some)
qed

lemma setClass_of_verify:
  assumes v: "verifyAccessTokenAndGetUserData sha256 tok db = Inr ud"
  shows "setClass sha256 tok w t X db =
           (Inr (ud\<lparr>uo_classInTimeTable := putCell (uo_classInTimeTable ud) w t X\<rparr>),
            db\<lparr>user := docModify (user db) (uo_id ud)
                          (\<lambda>d. d\<lparr>classInTimeTable := putCell (classInTimeTable d) w t X\<rparr>),
               writes := writes db @ [SetMerge ''user'' (uo_id ud)]\<rparr>)"
proof -
  from verify_Inr_doc [OF v] obtain d0 where "docData (user db) (uo_id ud) = Some d0" ..
  then show ?thesis
    using v by (simp add: setClass_def putCell_def)
qed

text \<open>
  Claim C2. For a token that verifies, every day, every period and every value \<open>X\<close>,
  \<open>setClass\<close> succeeds, and reading the user with \<open>getUser\<close> afterwards shows \<open>X\<close> in the
  cell (day, period) and in every other cell the value read before the call; there are 29
  other cells.
\<close>

theorem setClass_sets_one_cell:
  assumes v: "verifyAccessTokenAndGetUserData sha256 tok db = Inr ud"
  shows "\<exists>out db' nm img g0 g.
           setClass sha256 tok w t X db = (Inr out, db')
           \<and> uo_id out = uo_id ud
           \<and> getUser (uo_id ud) db = Inr (nm, g0, img)
           \<and> getUser (uo_id ud) db' = Inr (nm, g, img)
           \<and> cell g w t = X
           \<and> (\<forall>w' t'. (w', t') \<noteq> (w, t) \<longrightarrow> cell g w' t' = cell g0 w' t')
           \<and> length (removeAll (w, t) allCells) = 29"
proof -
  let ?f = "\<lambda>d. d\<lparr>classInTimeTable := putCell (classInTimeTable d) w t X\<rparr>"
  from verify_Inr_doc [OF v] obtain d0 where d0: "docData (user db) (uo_id ud) = Some d0" ..
  have before: "getUser (uo_id ud) db = Inr (name d0, classInTimeTable d0, imageFileHash d0)"
    using d0 by (simp add: getUser_def)
  have "docData (docModify (user db) (uo_id ud) ?f) (uo_id ud) = Some (?f d0)"
    using d0 by (simp add: docData_def map_of_docModify)
  then have after: "getUser (uo_id ud)
            (db\<lparr>user := docModify (user db) (uo_id ud) ?f,
                writes := writes db @ [SetMerge ''user'' (uo_id ud)]\<rparr>) =
          Inr (name d0, putCell (classInTimeTable d0) w t X, imageFileHash d0)"
    by (simp add: getUser_def)
  have c: "cell (putCell (classInTimeTable d0) w t X) w t = X"
    by (simp add: cell_putCell)
  have o: "\<forall>w' t'. (w', t') \<noteq> (w, t) \<longrightarrow>
             cell (putCell (classInTimeTable d0) w t X) w' t' = cell (classInTimeTable d0) w' t'"
    by (simp add: cell_putCell)
  have idout: "uo_id (ud\<lparr>uo_classInTimeTable := putCell (uo_classInTimeTable ud) w t X\<rparr>) = uo_id ud"
    by simp
  from setClass_of_verify [OF v, of w t X] idout before after c o
    length_removeAll_allCells [of w t]
  show ?thesis by blast
qed

theorem setClass_sets_one_cell_witness:
  "verifyAccessTokenAndGetUserData toHex exampleTokenA exampleDatabase =
     Inr \<lparr>uo_id = exampleUserId, uo_name = ''Alice'',
          uo_imageFileHash = ''89504e47696d6167652f706e67'',
          uo_classInTimeTable = emptyTimeTable\<rparr>
   \<and> (\<exists>out db' nm img g0 g.
         setClass toHex exampleTokenA Tuesday Class3 (Some ''c42'') exampleDatabase = (Inr out, db')
         \<and> uo_id out = exampleUserId
         \<and> getUser exampleUserId exampleDatabase = Inr (nm, g0, img)
         \<and> getUser exampleUserId db' = Inr (nm, g, img)
         \<and> cell g Tuesday Class3 = Some ''c42''
         \<and> (\<forall>w' t'. (w', t') \<noteq> (Tuesday, Class3) \<longrightarrow> cell g w' t' = cell g0 w' t')
         \<and> length (removeAll (Tuesday, Class3) allCells) = 29)"
  using setClass_sets_one_cell [OF example_verify, of Tuesday Class3 "Some ''c42''"] example_verify
  by simp

text \<open>
  Claim C7. For a token that verifies, a second \<open>setClass\<close> with the same arguments succeeds,
  returns the same snapshot as the first and leaves the stored collections as the first
  call left them.
\<close>

theorem setClass_idempotent:
  assumes v: "verifyAccessTokenAndGetUserData sha256 tok db = Inr ud"
  shows "\<exists>out db1 db2.
           setClass sha256 tok w t X db = (Inr out, db1)
           \<and> setClass sha256 tok w t X db1 = (Inr out, db2)
           \<and> user db2 = user db1
           \<and> lineLoginState db2 = lineLoginState db1
           \<and> bucket db2 = bucket db1"
proof -
  let ?f = "\<lambda>d. d\<lparr>classInTimeTable := putCell (classInTimeTable d) w t X\<rparr>"
  let ?h = "hashAccessToken sha256 tok"
  let ?out = "ud\<lparr>uo_classInTimeTable := putCell (uo_classInTimeTable ud) w t X\<rparr>"
  let ?db1 = "db\<lparr>user := docModify (user db) (uo_id ud) ?f,
                  writes := writes db @ [SetMerge ''user'' (uo_id ud)]\<rparr>"
  have first: "setClass sha256 tok w t X db = (Inr ?out, ?db1)"
    by (rule setClass_of_verify [OF v])
  from verify_Inr_mem [OF v] obtain d rest where
    q: "whereEq lastIssuedAccessTokenHash ?h (user db) = (uo_id ud, d) # rest"
    and ud: "uo_name ud = name d" "uo_imageFileHash ud = imageFileHash d"
      "uo_classInTimeTable ud = classInTimeTable d"
    by blast
  have "whereEq lastIssuedAccessTokenHash ?h (docModify (user db) (uo_id ud) ?f) =
        docModify (whereEq lastIssuedAccessTokenHash ?h (user db)) (uo_id ud) ?f"
    by (rule whereEq_docModify_preserve) simp
  also have "\<dots> = (uo_id ud, ?f d) # docModify rest (uo_id ud) ?f"
    by (simp add: q docModify_Cons)
  finally have "verifyAccessTokenAndGetUserData sha256 tok ?db1 =
      Inr \<lparr>uo_id = uo_id ud, uo_name = name d, uo_imageFileHash = imageFileHash d,
           uo_classInTimeTable = putCell (classInTimeTable d) w t X\<rparr>"
    by (simp add: verifyAccessTokenAndGetUserData_def)
  also have "\<lparr>uo_id = uo_id ud, uo_name = name d, uo_imageFileHash = imageFileHash d,
           uo_classInTimeTable = putCell (classInTimeTable d) w t X\<rparr> = ?out"
    by (simp add: ud)
  finally have v1: "verifyAccessTokenAndGetUserData sha256 tok ?db1 = Inr ?out" .
  have idem: "docModify (docModify (user db) (uo_id ud) ?f) (uo_id ud) ?f
              = docModify (user db) (uo_id ud) ?f"
    by (rule docModify_idem) (simp add: putCell_idem)
  have second: "setClass sha256 tok w t X ?db1 =
      (Inr ?out, ?db1\<lparr>writes := writes ?db1 @ [SetMerge ''user'' (uo_id ud)]\<rparr>)"
    using setClass_of_verify [OF v1, of w t X] by (simp add: idem putCell_idem)
  have same: "user (?db1\<lparr>writes := writes ?db1 @ [SetMerge ''user'' (uo_id ud)]\<rparr>) = user ?db1"
    "lineLoginState (?db1\<lparr>writes := writes ?db1 @ [SetMerge ''user'' (uo_id ud)]\<rparr>)
       = lineLoginState ?db1"
    "bucket (?db1\<lparr>writes := writes ?db1 @ [SetMerge ''user'' (uo_id ud)]\<rparr>) = bucket ?db1"
    by simp_all
  from first second same show ?thesis by blast
qed

theorem setClass_idempotent_witness:
  "verifyAccessTokenAndGetUserData toHex exampleTokenA exampleDatabase =
     Inr \<lparr>uo_id = exampleUserId, uo_name = ''Alice'',
          uo_imageFileHash = ''89504e47696d6167652f706e67'',
          uo_classInTimeTable = emptyTimeTable\<rparr>
   \<and> (\<exists>out db1 db2.
         setClass toHex exampleTokenA Tuesday Class3 (Some ''c42'') exampleDatabase = (Inr out, db1)
         \<and> setClass toHex exampleTokenA Tuesday Class3 (Some ''c42'') db1 = (Inr out, db2)
         \<and> user db2 = user db1
         \<and> lineLoginState db2 = lineLoginState db1
         \<and> bucket db2 = bucket db1)"
  using setClass_idempotent [OF example_verify, of Tuesday Class3 "Some ''c42''"] example_verify
  by simp

section \<open>Consuming a login state\<close>







lemma docKey_single: "docKey [s] = s"
  by (simp add: docKey_def)







lemma check_results:
  "checkExistsAndDeleteState acc st db =
     (case docSegments st of
        Inl e \<Rightarrow> (Inl e, db)
      | Inr segs \<Rightarrow>
          if \<not> acc segs then (Inl StoreRejected, db)
          else if docData (lineLoginState db) (docKey segs) = None then (Inr False, db)
          else (Inr True,
                db\<lparr>lineLoginState := docDelete (lineLoginState db) (docKey segs),
                   writes := writes db @ [Delete ''lineLoginState'' (docKey segs)]\<rparr>))"
  by (auto simp: checkExistsAndDeleteState_def split: sum.splits option.splits)




lemma exampleState_eval: "exampleState = ''a0a1a2a3a4a5a6a7a8a9aaabacadaeaf''"
  by code_simp

lemma exampleStateDatabase_eval:
  "exampleStateDatabase =
     exampleDatabase
       \<lparr>lineLoginState := [(''a0a1a2a3a4a5a6a7a8a9aaabacadaeaf'', \<lparr>state_createdAt = 7\<rparr>)],
        writes := writes exampleDatabase
                    @ [Create ''lineLoginState'' ''a0a1a2a3a4a5a6a7a8a9aaabacadaeaf'']\<rparr>"
  by code_simp


lemma docSegments_exampleState_slash:
  "docSegments ''a0a1a2a3a4a5a6a7a8a9aaabacadaeaf/'' = Inr [''a0a1a2a3a4a5a6a7a8a9aaabacadaeaf'']"
  by code_simp

lemma docSegments_exampleState:
  "docSegments ''a0a1a2a3a4a5a6a7a8a9aaabacadaeaf'' = Inr [''a0a1a2a3a4a5a6a7a8a9aaabacadaeaf'']"
  by code_simp

lemma docSegments_never_issued: "docSegments ''never issued'' = Inr [''never issued'']"
  by code_simp

lemma docSegments_empty: "docSegments [] = Inl InvalidResourcePath"
  by (simp add: docSegments_def)

lemma exampleStoreAccepts_single:
  "exampleStoreAccepts [''a0a1a2a3a4a5a6a7a8a9aaabacadaeaf'']" "exampleStoreAccepts [''never issued'']"
  by (simp_all add: exampleStoreAccepts_def)

lemmas example_state_evals =
  exampleState_eval exampleStateDatabase_eval exampleDatabase_eval docSegments_exampleState
  docSegments_exampleState_slash docSegments_never_issued docSegments_empty
  exampleStoreAccepts_single docKey_single




section \<open>Creating a user\<close>

text \<open>
  Claim C8. The user document that a successful \<open>createUser\<close> creates is new, and each cell
  of its timetable is empty; the cells are the 30 pairs of a day and a period.
\<close>

theorem createUser_grid_empty:
  assumes c: "createUser sha256 httpGet rb16 rb24 now nm url lid db = (Inr tok, db')"
  shows "\<exists>d. docData (user db) (createRandomId rb16) = None
             \<and> docData (user db') (createRandomId rb16) = Some d
             \<and> (\<forall>w t. cell (classInTimeTable d) w t = None)
             \<and> map (\<lambda>(w, t). cell (classInTimeTable d) w t) allCells = replicate 30 None
             \<and> length allCells = 30 \<and> distinct allCells \<and> set allCells = UNIV"
proof -
  let ?uid = "createRandomId rb16"
  let ?grid = "\<lparr>monday = \<lparr>class1 = None, class2 = None, class3 = None, class4 = None, class5 = None\<rparr>,
        tuesday = \<lparr>class1 = None, class2 = None, class3 = None, class4 = None, class5 = None\<rparr>,
        wednesday = \<lparr>class1 = None, class2 = None, class3 = None, class4 = None, class5 = None\<rparr>,
        thursday = \<lparr>class1 = None, class2 = None, class3 = None, class4 = None, class5 = None\<rparr>,
        friday = \<lparr>class1 = None, class2 = None, class3 = None, class4 = None, class5 = None\<rparr>,
        saturday = \<lparr>class1 = None, class2 = None, class3 = None, class4 = None, class5 = None\<rparr>\<rparr>"
  from c obtain d cs where
    cr: "docCreate (user db) ?uid d = Some cs"
    and us: "user db' = cs"
    and grid: "classInTimeTable d = ?grid"
    by (auto simp: createUser_def saveUserImageFromUrl_def saveFile_def Let_def
        split: option.splits prod.splits sum.splits)
  from docData_docCreate [OF cr] us
  have absent: "docData (user db) ?uid = None"
    and stored: "docData (user db') ?uid = Some d"
    by simp_all
  have all: "\<forall>w t. cell (classInTimeTable d) w t = None"
  proof (intro allI)
    fix w t
    show "cell (classInTimeTable d) w t = None"
      unfolding grid by (cases w; cases t; simp add: cell_def)
  qed
  then have "map (\<lambda>(w, t). cell (classInTimeTable d) w t) allCells = map (\<lambda>p. None) allCells"
    by (intro map_cong) auto
  then have m: "map (\<lambda>(w, t). cell (classInTimeTable d) w t) allCells = replicate 30 None"
    by (simp only: map_replicate_const length_allCells)
  from absent stored all m length_allCells distinct_allCells set_allCells
  show ?thesis by blast
qed

theorem createUser_grid_empty_witness:
  "createUser toHex exampleHttpGet exampleIdBytes exampleBytesA 0
       ''Alice'' ''https://example.com/alice.png'' ''U0123'' emptyDatabase
     = (Inr exampleTokenA,
        snd (createUser toHex exampleHttpGet exampleIdBytes exampleBytesA 0
               ''Alice'' ''https://example.com/alice.png'' ''U0123'' emptyDatabase))
   \<and> (\<exists>d. docData (user emptyDatabase) (createRandomId exampleIdBytes) = None
          \<and> docData (user (snd (createUser toHex exampleHttpGet exampleIdBytes exampleBytesA 0
               ''Alice'' ''https://example.com/alice.png'' ''U0123'' emptyDatabase)))
               (createRandomId exampleIdBytes) = Some d
          \<and> (\<forall>w t. cell (classInTimeTable d) w t = None)
          \<and> map (\<lambda>(w, t). cell (classInTimeTable d) w t) allCells = replicate 30 None
          \<and> length allCells = 30 \<and> distinct allCells \<and> set allCells = UNIV)"
proof -
  have h: "createUser toHex exampleHttpGet exampleIdBytes exampleBytesA 0
       ''Alice'' ''https://example.com/alice.png'' ''U0123'' emptyDatabase
     = (Inr exampleTokenA,
        snd (createUser toHex exampleHttpGet exampleIdBytes exampleBytesA 0
               ''Alice'' ''https://example.com/alice.png'' ''U0123'' emptyDatabase))"
    by (simp add: createUser_def saveUserImageFromUrl_def saveFile_def exampleHttpGet_def
        docCreate_def emptyDatabase_def exampleTokenA_def Let_def)
  from createUser_grid_empty [OF h] h show ?thesis by blast
qed

section \<open>The callback with a state that is not found\<close>

text \<open>
  Claim C4 as stated fails: for a callback whose code and state are strings and whose state
  has no document, the handler answers with status 400 and an error text, not with a
  redirect to the home page of the app.
\<close>

theorem lineLoginCallback_redirect_counterexample:
  "''never issued'' \<notin> fst ` set (lineLoginState exampleDatabase)
   \<and> fst (lineLoginCallback exampleEnv (JString ''code'') (JString ''never issued'') exampleDatabase)
       = StatusSend 400 ''LINE LogIn Error: Definy dose not generate state (never issued)''
   \<and> fst (lineLoginCallback exampleEnv (JString ''code'') (JString ''never issued'') exampleDatabase)
       \<noteq> Redirect appHttpsSchemeAndHostName"
  by (simp add: lineLoginCallback_def check_results example_state_evals docData_def exampleEnv_def)

text \<open>
  Claim C4, amended. A callback whose state is not found is aborted and leaves the store
  as it was, so that no user is created and no access token is issued. When the code or
  the state is not a string the handler redirects to the home page of the app. When both
  are strings and the document that the state's path addresses does not exist, it answers
  with status 400 and the text \<open>LINE LogIn Error: Definy dose not generate state (...)\<close>.
  When both are strings and the state is no document path, or the store refuses the path,
  the handler throws before it sends a response.
\<close>

theorem lineLoginCallback_unknown_state:
  "((queryCode = JOther \<or> queryState = JOther)
      \<longrightarrow> lineLoginCallback env queryCode queryState db = (Redirect appHttpsSchemeAndHostName, db))
   \<and> (docSegments state = Inr segs \<and> env_storeAccepts env segs
       \<and> docData (lineLoginState db) (docKey segs) = None
      \<longrightarrow> lineLoginCallback env (JString code) (JString state) db =
            (StatusSend 400
               (''LINE LogIn Error: Definy dose not generate state ('' @ state @ '')''), db))
   \<and> (docSegments state = Inl e
      \<longrightarrow> lineLoginCallback env (JString code) (JString state) db = (Unhandled e, db))
   \<and> (docSegments state = Inr segs \<and> \<not> env_storeAccepts env segs
      \<longrightarrow> lineLoginCallback env (JString code) (JString state) db = (Unhandled StoreRejected, db))"
proof (intro conjI impI)
  assume "queryCode = JOther \<or> queryState = JOther"
  then show "lineLoginCallback env queryCode queryState db = (Redirect appHttpsSchemeAndHostName, db)"
    by (cases queryCode; cases queryState) (simp_all add: lineLoginCallback_def)
next
  assume "docSegments state = Inr segs \<and> env_storeAccepts env segs
       \<and> docData (lineLoginState db) (docKey segs) = None"
  then have "checkExistsAndDeleteState (env_storeAccepts env) state db = (Inr False, db)"
    by (simp add: check_results)
  then show "lineLoginCallback env (JString code) (JString state) db =
            (StatusSend 400
               (''LINE LogIn Error: Definy dose not generate state ('' @ state @ '')''), db)"
    by (simp add: lineLoginCallback_def)
next
  assume "docSegments state = Inl e"
  then have "checkExistsAndDeleteState (env_storeAccepts env) state db = (Inl e, db)"
    by (simp add: check_results)
  then show "lineLoginCallback env (JString code) (JString state) db = (Unhandled e, db)"
    by (simp add: lineLoginCallback_def)
next
  assume "docSegments state = Inr segs \<and> \<not> env_storeAccepts env segs"
  then have "checkExistsAndDeleteState (env_storeAccepts env) state db = (Inl StoreRejected, db)"
    by (simp add: check_results)
  then show "lineLoginCallback env (JString code) (JString state) db = (Unhandled StoreRejected, db)"
    by (simp add: lineLoginCallback_def)
qed

theorem lineLoginCallback_unknown_state_witness:
  "lineLoginCallback exampleEnv JOther (JString exampleState) exampleStateDatabase
     = (Redirect appHttpsSchemeAndHostName, exampleStateDatabase)
   \<and> docSegments ''never issued'' = Inr [''never issued'']
   \<and> env_storeAccepts exampleEnv [''never issued'']
   \<and> docData (lineLoginState exampleStateDatabase) (docKey [''never issued'']) = None
   \<and> lineLoginCallback exampleEnv (JString ''code'') (JString ''never issued'') exampleStateDatabase
       = (StatusSend 400 ''LINE LogIn Error: Definy dose not generate state (never issued)'',
          exampleStateDatabase)
   \<and> docSegments [] = Inl InvalidResourcePath
   \<and> lineLoginCallback exampleEnv (JString ''code'') (JString []) exampleStateDatabase
       = (Unhandled InvalidResourcePath, exampleStateDatabase)
   \<and> docSegments ''.'' = Inr [''.''] \<and> \<not> env_storeAccepts exampleEnv [''.'']
   \<and> lineLoginCallback exampleEnv (JString ''code'') (JString ''.'') exampleStateDatabase
       = (Unhandled StoreRejected, exampleStateDatabase)"
proof -
  have a: "docSegments ''never issued'' = Inr [''never issued'']"
    "env_storeAccepts exampleEnv [''never issued'']"
    "docData (lineLoginState exampleStateDatabase) (docKey [''never issued'']) = None"
    by (simp_all add: example_state_evals exampleEnv_def docData_def)
  have b: "docSegments [] = Inl InvalidResourcePath"
    by (rule docSegments_empty)
  have c: "docSegments ''.'' = Inr [''.'']" "\<not> env_storeAccepts exampleEnv [''.'']"
    by (simp_all add: docSegments_def exampleEnv_def exampleStoreAccepts_def)
  from lineLoginCallback_unknown_state [of JOther "JString exampleState" exampleEnv exampleStateDatabase]
  have r0: "lineLoginCallback exampleEnv JOther (JString exampleState) exampleStateDatabase
     = (Redirect appHttpsSchemeAndHostName, exampleStateDatabase)"
    by simp
  from lineLoginCallback_unknown_state [of _ _ exampleEnv exampleStateDatabase "''never issued''"
      "[''never issued'']" "''code''"] a
  have r1: "lineLoginCallback exampleEnv (JString ''code'') (JString ''never issued'') exampleStateDatabase
       = (StatusSend 400 ''LINE LogIn Error: Definy dose not generate state (never issued)'',
          exampleStateDatabase)"
    by simp
  from lineLoginCallback_unknown_state [of _ _ exampleEnv exampleStateDatabase "[]" _ "''code''"
      InvalidResourcePath] b
  have r2: "lineLoginCallback exampleEnv (JString ''code'') (JString []) exampleStateDatabase
       = (Unhandled InvalidResourcePath, exampleStateDatabase)"
    by simp
  from lineLoginCallback_unknown_state [of _ _ exampleEnv exampleStateDatabase "''.''" "[''.'']"
      "''code''"] c
  have r3: "lineLoginCallback exampleEnv (JString ''code'') (JString ''.'') exampleStateDatabase
       = (Unhandled StoreRejected, exampleStateDatabase)"
    by simp
  from r0 a r1 b r2 c r3 show ?thesis
    by (intro conjI)
qed

end
